theory Spec2Isabelle
  imports Complex_Main
begin

section \<open>numpy numbers and arrays\<close>

text \<open>
  A numpy float64. A finite float is idealised as a real (no rounding, no overflow);
  the IEEE special values that \<^verbatim>\<open>np.log\<close> and the arithmetic produce are kept:
  \<^verbatim>\<open>np.log(0) = -inf\<close>, \<^verbatim>\<open>np.log(-1) = nan\<close>, \<^verbatim>\<open>inf - inf = nan\<close>.
\<close>

datatype fl = Fin real | PInf | NInf | NaN

fun fl_add :: "fl \<Rightarrow> fl \<Rightarrow> fl" where
  "fl_add (Fin a) (Fin b) = Fin (a + b)"
| "fl_add NaN _ = NaN"
| "fl_add _ NaN = NaN"
| "fl_add PInf NInf = NaN"
| "fl_add NInf PInf = NaN"
| "fl_add PInf _ = PInf"
| "fl_add _ PInf = PInf"
| "fl_add NInf _ = NInf"
| "fl_add _ NInf = NInf"

fun fl_neg :: "fl \<Rightarrow> fl" where
  "fl_neg (Fin a) = Fin (- a)"
| "fl_neg PInf = NInf"
| "fl_neg NInf = PInf"
| "fl_neg NaN = NaN"

definition fl_sub :: "fl \<Rightarrow> fl \<Rightarrow> fl" where
  "fl_sub a b = fl_add a (fl_neg b)"

text \<open>The sign of a float that is not nan: -1, 0 or 1.\<close>

fun fl_sgn :: "fl \<Rightarrow> int" where
  "fl_sgn (Fin a) = (if a < 0 then -1 else if a = 0 then 0 else 1)"
| "fl_sgn PInf = 1"
| "fl_sgn NInf = -1"
| "fl_sgn NaN = 0"

fun fl_mul :: "fl \<Rightarrow> fl \<Rightarrow> fl" where
  "fl_mul (Fin a) (Fin b) = Fin (a * b)"
| "fl_mul NaN _ = NaN"
| "fl_mul _ NaN = NaN"
| "fl_mul a b =
     (let s = fl_sgn a * fl_sgn b
      in if s = 0 then NaN else if s < 0 then NInf else PInf)"

fun fl_exp :: "fl \<Rightarrow> fl" where
  "fl_exp (Fin a) = Fin (exp a)"
| "fl_exp PInf = PInf"
| "fl_exp NInf = Fin 0"
| "fl_exp NaN = NaN"

text \<open>
  \<^verbatim>\<open>np.log\<close>: HOL's \<open>ln\<close> is total (\<open>ln 0 = 0\<close>, \<open>ln (- x) = ln x\<close>), numpy's
  logarithm is not, so the cases are written out.
\<close>

fun fl_log :: "fl \<Rightarrow> fl" where
  "fl_log (Fin a) = (if 0 < a then Fin (ln a) else if a = 0 then NInf else NaN)"
| "fl_log PInf = PInf"
| "fl_log NInf = NaN"
| "fl_log NaN = NaN"

text \<open>Comparison \<^verbatim>\<open>a < b\<close>: false as soon as one side is nan.\<close>

fun fl_less :: "fl \<Rightarrow> fl \<Rightarrow> bool" where
  "fl_less (Fin a) (Fin b) = (a < b)"
| "fl_less NaN _ = False"
| "fl_less _ NaN = False"
| "fl_less _ NInf = False"
| "fl_less NInf _ = True"
| "fl_less PInf _ = False"
| "fl_less _ PInf = True"

text \<open>\<^verbatim>\<open>np.maximum\<close> and \<^verbatim>\<open>np.minimum\<close> on two floats: nan propagates.\<close>

definition fl_maximum :: "fl \<Rightarrow> fl \<Rightarrow> fl" where
  "fl_maximum a b = (if a = NaN \<or> b = NaN then NaN else if fl_less a b then b else a)"


text \<open>\<^verbatim>\<open>np.sum\<close> of a vector: left to right from 0.\<close>

definition np_sum :: "fl list \<Rightarrow> fl" where
  "np_sum v = foldl fl_add (Fin 0) v"

text \<open>\<^verbatim>\<open>np.alltrue\<close>: every entry is truthy, that is, different from 0 (nan and the
  infinities are truthy).\<close>

definition alltrue :: "fl list \<Rightarrow> bool" where
  "alltrue v = list_all (\<lambda>x. x \<noteq> Fin 0) v"

text \<open>
  \<^verbatim>\<open>np.allclose(a, b)\<close> on two scalars with numpy's defaults \<^verbatim>\<open>rtol=1e-05\<close>,
  \<^verbatim>\<open>atol=1e-08\<close>: \<^verbatim>\<open>|a - b| <= atol + rtol * |b|\<close>; equal infinities are close, nan
  is close to nothing.
\<close>

definition rtol :: real where
  "rtol = 1 / 10 ^ 5"

definition atol :: real where
  "atol = 1 / 10 ^ 8"

fun allclose :: "fl \<Rightarrow> fl \<Rightarrow> bool" where
  "allclose (Fin a) (Fin b) = (\<bar>a - b\<bar> \<le> atol + rtol * \<bar>b\<bar>)"
| "allclose PInf PInf = True"
| "allclose NInf NInf = True"
| "allclose _ _ = False"

section \<open>Observations and exceptions\<close>

text \<open>
  An observation sequence: a one-dimensional numpy array of integers (dtype kind
  \<^verbatim>\<open>'i'\<close>) or of floats.
\<close>

datatype seq = IntSeq "int list" | FloatSeq "real list"

text \<open>
  A raised Python exception: its class and its message. \<open>ValueErrorOf t obs\<close> is
  \<^verbatim>\<open>ValueError(t % obs)\<close>, the message being the template \<open>t\<close> with the dataset
  \<open>obs\<close> printed in the place of \<^verbatim>\<open>%s\<close>.
\<close>

datatype exn =
    ValueError string
  | ValueErrorOf string "seq list"
  | IndexError string
  | TypeError string
  | ZeroDivisionError string

fun exn_class :: "exn \<Rightarrow> string" where
  "exn_class (ValueError _) = ''ValueError''"
| "exn_class (ValueErrorOf _ _) = ''ValueError''"
| "exn_class (IndexError _) = ''IndexError''"
| "exn_class (TypeError _) = ''TypeError''"
| "exn_class (ZeroDivisionError _) = ''ZeroDivisionError''"

definition ebind :: "exn + 'a \<Rightarrow> ('a \<Rightarrow> exn + 'b) \<Rightarrow> exn + 'b" where
  "ebind m f = (case m of Inl e \<Rightarrow> Inl e | Inr x \<Rightarrow> f x)"

section \<open>The helpers imported from hmmlearn.hmm\<close>

text \<open>
  \<^verbatim>\<open>from .hmm import (..., randomize, normalize, log_normalize)\<close>: the module
  \<^verbatim>\<open>hmm.py\<close> is not part of the sources at hand, so the helpers are parameters of
  the model. \<^verbatim>\<open>normalize\<close> is called both for its result (\<^verbatim>\<open>_do_mstep\<close>) and as a
  statement whose result is dropped (\<^verbatim>\<open>_set_component_weights\<close>), so it has two
  parts: what it returns and what the argument array holds after the call.
  \<^verbatim>\<open>randomize\<close> draws random numbers; the field is its result at the call, and
  so is \<open>np_random_dirichlet\<close> for numpy's \<^verbatim>\<open>np.random.dirichlet\<close>.
\<close>

record helpers =
  hmm_normalize :: "fl list \<Rightarrow> fl list"
  hmm_normalize_inplace :: "fl list \<Rightarrow> fl list"
  hmm_log_normalize :: "fl list \<Rightarrow> fl list"
  hmm_randomize :: "fl list \<Rightarrow> fl list"
  np_random_dirichlet :: "fl list \<Rightarrow> fl list"

section \<open>The mixture model\<close>

text \<open>
  \<^verbatim>\<open>random_state\<close>: \<^verbatim>\<open>None\<close>, an int seed, a \<^verbatim>\<open>RandomState\<close> instance (its state
  \<open>'r\<close>), or numpy's process-wide generator \<^verbatim>\<open>np.random.mtrand._rand\<close>, which
  \<^verbatim>\<open>check_random_state(None)\<close> returns.
\<close>

datatype 'r rstate = RSNone | RSSeed int | RSGen 'r | RSGlobal

text \<open>
  \<^verbatim>\<open>component_weights_prior\<close>: \<^verbatim>\<open>None\<close>, a vector, or the scalar that
  \<^verbatim>\<open>_do_mstep\<close> puts in the place of \<^verbatim>\<open>None\<close>.
\<close>

datatype prior = PriorNone | PriorScalar fl | PriorVec "fl list"

text \<open>
  The attributes of \<^verbatim>\<open>_BaseMixHMM\<close>. \<open>'h\<close> is a component HMM (an object of
  \<^verbatim>\<open>hmm.py\<close>). \<open>log_component_weights\<close> is \<^verbatim>\<open>self._log_component_weights\<close>.
\<close>

record ('h, 'r) mixhmm =
  n_components :: nat
  n_states :: nat
  hmms :: "'h list option"
  n_iter :: nat
  thresh :: fl
  params :: string
  init_params :: string
  log_component_weights :: "fl list"
  component_weights_prior :: prior
  random_state :: "'r rstate"
  verbose :: nat

subsection \<open>The property component_weights_\<close>

text \<open>\<^verbatim>\<open>_get_component_weights\<close>: \<^verbatim>\<open>np.exp(self._log_component_weights)\<close>.\<close>

definition get_component_weights :: "('h, 'r) mixhmm \<Rightarrow> fl list" where
  "get_component_weights m = map fl_exp (log_component_weights m)"

text \<open>The two messages (the first without the line continuation and the backquotes
  the source has inside it).\<close>

definition msg_length :: string where
  "msg_length = ''component_weights must have length n_components''"

definition msg_sum :: string where
  "msg_sum = ''component_weights must sum to 1.0''"

text \<open>
  \<^verbatim>\<open>_set_component_weights\<close>. The argument is \<^verbatim>\<open>None\<close> or a vector.
  \<^verbatim>\<open>1.0 / self.n_components\<close> raises on 0 components. The result of
  \<^verbatim>\<open>normalize(component_weights)\<close> is dropped: only its effect on the array counts.
\<close>

definition set_component_weights ::
  "helpers \<Rightarrow> ('h, 'r) mixhmm \<Rightarrow> fl list option \<Rightarrow> exn + ('h, 'r) mixhmm" where
  "set_component_weights H m arg =
     ebind
       (case arg of
          None \<Rightarrow>
            if n_components m = 0 then Inl (ZeroDivisionError ''float division by zero'')
            else Inr (hmm_randomize H
                   (replicate (n_components m) (Fin (1 / real (n_components m)))))
        | Some w \<Rightarrow> Inr w)
       (\<lambda>w0.
          let w = (if \<not> alltrue w0 then hmm_normalize_inplace H w0 else w0)
          in if length w \<noteq> n_components m then Inl (ValueError msg_length)
             else if \<not> allclose (np_sum w) (Fin 1) then Inl (ValueError msg_sum)
             else Inr (m\<lparr>log_component_weights := map fl_log w\<rparr>))"

section \<open>Array operations\<close>

text \<open>The first error of a list of results, or all the values.\<close>

fun esequence :: "(exn + 'a) list \<Rightarrow> exn + 'a list" where
  "esequence [] = Inr []"
| "esequence (r # rs) = ebind r (\<lambda>x. ebind (esequence rs) (\<lambda>xs. Inr (x # xs)))"

definition bc_err :: exn where
  "bc_err = ValueError ''operands could not be broadcast together''"

text \<open>
  \<^verbatim>\<open>a += b\<close> on vectors: \<open>b\<close> has the length of \<open>a\<close>, or length 1 and is broadcast;
  anything else raises. A matrix is the list of its rows; \<^verbatim>\<open>A += B\<close> broadcasts a
  one-row \<open>B\<close> the same way.
\<close>

definition vec_iadd :: "fl list \<Rightarrow> fl list \<Rightarrow> exn + fl list" where
  "vec_iadd a b =
     (if length b = length a then Inr (map2 fl_add a b)
      else if length b = 1 then Inr (map (\<lambda>x. fl_add x (b ! 0)) a)
      else Inl bc_err)"





definition zeros :: "nat \<Rightarrow> fl list" where
  "zeros n = replicate n (Fin 0)"

definition zeros2 :: "nat \<Rightarrow> nat \<Rightarrow> fl list list" where
  "zeros2 r c = replicate r (zeros c)"

text \<open>\<^verbatim>\<open>xs[i]\<close> with \<open>i\<close> from a \<^verbatim>\<open>range\<close> or an \<^verbatim>\<open>enumerate\<close>: out of range raises.\<close>

definition index_err :: exn where
  "index_err = IndexError ''index out of bounds''"

definition nth_e :: "'a list \<Rightarrow> nat \<Rightarrow> exn + 'a" where
  "nth_e xs i = (if i < length xs then Inr (xs ! i) else Inl index_err)"

text \<open>\<^verbatim>\<open>arr.max()\<close> of a vector with first entry \<open>x\<close>: nan propagates.\<close>

definition np_max :: "fl \<Rightarrow> fl list \<Rightarrow> fl" where
  "np_max x xs = foldl fl_maximum x xs"

text \<open>
  \<^verbatim>\<open>sklearn.utils.extmath.logsumexp\<close> (a library function) on a vector:
  \<^verbatim>\<open>vmax = arr.max(axis=0); out = np.log(np.sum(np.exp(arr - vmax), axis=0)); out += vmax\<close>.
  The maximum of an empty array raises.
\<close>

definition lse :: "fl \<Rightarrow> fl list \<Rightarrow> fl" where
  "lse x xs =
     (let vmax = np_max x xs
      in fl_add (fl_log (np_sum (map (\<lambda>a. fl_exp (fl_sub a vmax)) (x # xs)))) vmax)"

definition logsumexp :: "fl list \<Rightarrow> exn + fl" where
  "logsumexp v =
     (case v of
        [] \<Rightarrow> Inl (ValueError ''zero-size array to reduction operation maximum'')
      | x # xs \<Rightarrow> Inr (lse x xs))"

text \<open>
  \<^verbatim>\<open>arr.argmax()\<close>: the first index of the maximum; a nan counts as the maximum.
  \<open>argmax_from i b bi xs\<close> scans \<open>xs\<close>, whose first entry has index \<open>i\<close>, with the best
  value \<open>b\<close> so far at index \<open>bi\<close>. The argmax of an empty array raises.
\<close>

fun argmax_from :: "nat \<Rightarrow> fl \<Rightarrow> nat \<Rightarrow> fl list \<Rightarrow> nat" where
  "argmax_from i b bi [] = bi"
| "argmax_from i b bi (x # xs) =
     (if b \<noteq> NaN \<and> (x = NaN \<or> fl_less b x) then argmax_from (Suc i) x i xs
      else argmax_from (Suc i) b bi xs)"

definition argmax :: "fl list \<Rightarrow> exn + nat" where
  "argmax v =
     (case v of
        [] \<Rightarrow> Inl (ValueError ''attempt to get argmax of an empty sequence'')
      | x # xs \<Rightarrow> Inr (argmax_from 1 x 0 xs))"

text \<open>\<^verbatim>\<open>(cdf > rand).argmax()\<close> on a boolean array: the first \<^verbatim>\<open>True\<close>, 0 when there is
  none.\<close>

fun first_true :: "nat \<Rightarrow> bool list \<Rightarrow> nat" where
  "first_true i [] = 0"
| "first_true i (b # bs) = (if b then i else first_true (Suc i) bs)"

definition argmax_bool :: "bool list \<Rightarrow> exn + nat" where
  "argmax_bool v =
     (if v = [] then Inl (ValueError ''attempt to get argmax of an empty sequence'')
      else Inr (first_true 0 v))"

text \<open>\<^verbatim>\<open>np.cumsum\<close>: running sums, starting from \<open>acc\<close>.\<close>

fun cumsum_from :: "fl \<Rightarrow> fl list \<Rightarrow> fl list" where
  "cumsum_from acc [] = []"
| "cumsum_from acc (x # xs) = fl_add acc x # cumsum_from (fl_add acc x) xs"

definition cumsum :: "fl list \<Rightarrow> fl list" where
  "cumsum v = (case v of [] \<Rightarrow> [] | x # xs \<Rightarrow> x # cumsum_from x xs)"

section \<open>The component HMMs\<close>

text \<open>
  The statistics of one component HMM, the dictionary that
  \<^verbatim>\<open>hmm._initialize_sufficient_statistics()\<close> returns, with the entries this module
  reads: \<^verbatim>\<open>'start'\<close>, \<^verbatim>\<open>'trans'\<close> and, for multinomial emissions, \<^verbatim>\<open>'obs'\<close>.
\<close>

record hmm_stats =
  hs_start :: "fl list"
  hs_trans :: "fl list list"
  hs_obs :: "fl list list"

text \<open>
  What this module calls on a component HMM and on the extension module
  \<^verbatim>\<open>_hmmc\<close>; none of it is in the sources at hand, so each is a parameter, taken to
  return (not to raise) and to leave the HMM as it is unless it returns a new one.
  A table \<^verbatim>\<open>framelogprob\<close> and a lattice are matrices time by state.
  \<open>compute_lneta\<close> gives the entry \<^verbatim>\<open>lneta[t, i, j]\<close> that \<^verbatim>\<open>_hmmc._compute_lneta\<close>
  writes into the array allocated for it. \<open>new_multinomial_hmm\<close> is
  \<^verbatim>\<open>MultinomialHMM(self.n_states, emissionprob_prior=self.emissionprob_prior)\<close>.
  \<open>'r\<close> is the state of a random generator: \<open>rs_rand\<close> is \<^verbatim>\<open>random_state.rand()\<close>,
  \<open>np_randint\<close> is \<^verbatim>\<open>np.random.randint(low, high)\<close> for \<open>low < high\<close>, \<open>rs_seed\<close> is
  \<^verbatim>\<open>np.random.RandomState(seed)\<close>, \<open>hmm_sample\<close> is \<^verbatim>\<open>hmm.sample(n, random_state)\<close>;
  each draw returns the generator's next state.
\<close>

record ('h, 'r) hmm_ops =
  compute_log_likelihood :: "'h \<Rightarrow> seq \<Rightarrow> fl list list"
  do_forward_pass :: "'h \<Rightarrow> fl list list \<Rightarrow> fl \<times> fl list list"
  do_backward_pass :: "'h \<Rightarrow> fl list list \<Rightarrow> fl list list"
  log_transmat :: "'h \<Rightarrow> fl list list"
  hmm_n_states :: "'h \<Rightarrow> nat"
  hmm_n_symbols :: "'h \<Rightarrow> nat"
  hmm_params :: "'h \<Rightarrow> string"
  hmm_initialize_sufficient_statistics :: "'h \<Rightarrow> hmm_stats"
  hmm_do_mstep :: "'h \<Rightarrow> hmm_stats \<Rightarrow> string \<Rightarrow> 'h"
  hmm_init :: "'h \<Rightarrow> seq list \<Rightarrow> 'h"
  new_multinomial_hmm :: "nat \<Rightarrow> 'h"
  compute_lneta ::
    "nat \<Rightarrow> nat \<Rightarrow> fl list list \<Rightarrow> fl list list \<Rightarrow> fl list list \<Rightarrow> fl list list \<Rightarrow> fl
       \<Rightarrow> nat \<Rightarrow> nat \<Rightarrow> nat \<Rightarrow> fl"
  rs_rand :: "'r \<Rightarrow> fl \<times> 'r"
  np_randint :: "'r \<Rightarrow> int \<Rightarrow> int \<Rightarrow> int \<times> 'r"
  rs_seed :: "int \<Rightarrow> 'r"
  hmm_sample :: "'h \<Rightarrow> int \<Rightarrow> 'r \<Rightarrow> (seq \<times> nat list) \<times> 'r"


text \<open>\<^verbatim>\<open>self.hmms\<close> where the code iterates over it or indexes it: \<^verbatim>\<open>None\<close> raises.\<close>

definition the_hmms :: "('h, 'r) mixhmm \<Rightarrow> exn + 'h list" where
  "the_hmms m =
     (case hmms m of
        None \<Rightarrow> Inl (TypeError ''NoneType object is not iterable'')
      | Some hs \<Rightarrow> Inr hs)"

section \<open>Sufficient statistics\<close>














section \<open>The expectation step\<close>

text \<open>
  \<^verbatim>\<open>_BaseMixHMM._compute_log_likelihood\<close>: the tables of the components
  \<^verbatim>\<open>self.hmms[i]\<close> for \<^verbatim>\<open>i in xrange(self.n_components)\<close>, stacked along a third axis;
  entry \<open>k\<close> of the list is \<^verbatim>\<open>framelogprob[:, :, k]\<close>. The tables are taken to have one
  shape.
\<close>

definition mix_compute_log_likelihood ::
  "('h, 'r) hmm_ops \<Rightarrow> ('h, 'r) mixhmm \<Rightarrow> seq \<Rightarrow> exn + fl list list list" where
  "mix_compute_log_likelihood O' m obs =
     ebind (the_hmms m) (\<lambda>hs.
       esequence (map (\<lambda>i. ebind (nth_e hs i) (\<lambda>h. Inr (compute_log_likelihood O' h obs)))
                    [0..<n_components m]))"







section \<open>The maximization step\<close>






section \<open>fit\<close>

text \<open>\<^verbatim>\<open>sklearn.utils.check_random_state\<close> on the values \<^verbatim>\<open>random_state\<close> takes.\<close>

definition check_random_state :: "('h, 'r) hmm_ops \<Rightarrow> 'r rstate \<Rightarrow> 'r rstate" where
  "check_random_state O' rs =
     (case rs of
        RSNone \<Rightarrow> RSGlobal
      | RSSeed n \<Rightarrow> RSGen (rs_seed O' n)
      | RSGen r \<Rightarrow> RSGen r
      | RSGlobal \<Rightarrow> RSGlobal)"







section \<open>Scoring and prediction\<close>

text \<open>
  The vector \<^verbatim>\<open>np.array([self.hmms[k]._do_forward_pass(framelogprob[:, :, k])[0] for k
  in range(self.n_components)])\<close> after \<^verbatim>\<open>+= self._log_component_weights\<close>, which
  \<^verbatim>\<open>score\<close> calls \<^verbatim>\<open>curr_logprob\<close> and \<^verbatim>\<open>score_samples\<close> calls \<^verbatim>\<open>posteriors\<close>.
\<close>

definition joint_logprob ::
  "('h, 'r) hmm_ops \<Rightarrow> ('h, 'r) mixhmm \<Rightarrow> seq \<Rightarrow> exn + fl list" where
  "joint_logprob O' m sq =
     ebind (mix_compute_log_likelihood O' m sq) (\<lambda>framelogprob.
     ebind (the_hmms m) (\<lambda>hs.
     ebind (esequence (map (\<lambda>k. ebind (nth_e hs k) (\<lambda>h.
                                 ebind (nth_e framelogprob k) (\<lambda>frame.
                                   Inr (fst (do_forward_pass O' h frame)))))
                         [0..<n_components m])) (\<lambda>lprs.
       vec_iadd lprs (log_component_weights m))))"


text \<open>\<^verbatim>\<open>responsibilities[i, :] = ...\<close>: a row of \<open>K\<close> entries takes \<open>K\<close> values, or one
  value for all.\<close>

definition assign_row :: "nat \<Rightarrow> fl list \<Rightarrow> exn + fl list" where
  "assign_row K r =
     (if length r = K then Inr r
      else if length r = 1 then Inr (replicate K (r ! 0))
      else Inl bc_err)"

definition score_samples ::
  "helpers \<Rightarrow> ('h, 'r) hmm_ops \<Rightarrow> ('h, 'r) mixhmm \<Rightarrow> seq list \<Rightarrow> exn + fl list \<times> fl list list" where
  "score_samples H O' m obs =
     ebind (esequence (map (\<lambda>sq.
              ebind (joint_logprob O' m sq) (\<lambda>posteriors.
              ebind (logsumexp posteriors) (\<lambda>l.
              ebind (assign_row (n_components m) (hmm_log_normalize H posteriors)) (\<lambda>r.
                Inr (l, r))))) obs)) (\<lambda>rows.
       Inr (map fst rows, map snd rows))"


definition predict_proba ::
  "helpers \<Rightarrow> ('h, 'r) hmm_ops \<Rightarrow> ('h, 'r) mixhmm \<Rightarrow> seq list \<Rightarrow> exn + fl list list" where
  "predict_proba H O' m obs =
     ebind (score_samples H O' m obs) (\<lambda>(logprob, responsibilities). Inr responsibilities)"

section \<open>Sampling\<close>

text \<open>
  The generators a call of \<^verbatim>\<open>sample\<close> draws from: the local \<^verbatim>\<open>random_state\<close> when
  there is one (\<open>Some\<close>), and numpy's process-wide generator, which is also the
  \<^verbatim>\<open>random_state\<close> when \<^verbatim>\<open>check_random_state\<close> had \<^verbatim>\<open>None\<close>.
\<close>

type_synonym 'r gens = "'r option \<times> 'r"

definition draw_rand :: "('h, 'r) hmm_ops \<Rightarrow> 'r gens \<Rightarrow> fl \<times> 'r gens" where
  "draw_rand O' gs =
     (case gs of
        (Some r, g) \<Rightarrow> (case rs_rand O' r of (x, r') \<Rightarrow> (x, (Some r', g)))
      | (None, g) \<Rightarrow> (case rs_rand O' g of (x, g') \<Rightarrow> (x, (None, g'))))"

text \<open>\<^verbatim>\<open>np.random.randint(n_min, n_max)\<close>: always the process-wide generator.\<close>

definition draw_length :: "('h, 'r) hmm_ops \<Rightarrow> int \<Rightarrow> int \<Rightarrow> 'r gens \<Rightarrow> exn + int \<times> 'r gens" where
  "draw_length O' n_min n_max gs =
     (case gs of (loc, g) \<Rightarrow>
        if n_max \<le> n_min then Inl (ValueError ''low >= high'')
        else (case np_randint O' g n_min n_max of (n, g') \<Rightarrow> Inr (n, (loc, g'))))"

definition draw_sample ::
  "('h, 'r) hmm_ops \<Rightarrow> 'h \<Rightarrow> int \<Rightarrow> 'r gens \<Rightarrow> (seq \<times> nat list) \<times> 'r gens" where
  "draw_sample O' h n gs =
     (case gs of
        (Some r, g) \<Rightarrow> (case hmm_sample O' h n r of (x, r') \<Rightarrow> (x, (Some r', g)))
      | (None, g) \<Rightarrow> (case hmm_sample O' h n g of (x, g') \<Rightarrow> (x, (None, g'))))"

text \<open>The loop \<^verbatim>\<open>for _ in range(n_seq)\<close>; the result lists are built front to back.\<close>

fun sample_loop ::
  "('h, 'r) hmm_ops \<Rightarrow> ('h, 'r) mixhmm \<Rightarrow> fl list \<Rightarrow> int \<Rightarrow> int \<Rightarrow> nat \<Rightarrow> 'r gens \<Rightarrow>
   exn + nat list \<times> seq list \<times> nat list list" where
  "sample_loop O' m cdf n_min n_max 0 gs = Inr ([], [], [])"
| "sample_loop O' m cdf n_min n_max (Suc n_seq) gs =
     (case draw_rand O' gs of (rand, gs1) \<Rightarrow>
        ebind (argmax_bool (map (\<lambda>c. fl_less rand c) cdf)) (\<lambda>currcomponent.
        ebind (draw_length O' n_min n_max gs1) (\<lambda>(n, gs2).
        ebind (the_hmms m) (\<lambda>hs.
        ebind (nth_e hs currcomponent) (\<lambda>h.
          case draw_sample O' h n gs2 of ((obs_seq, state_seq), gs3) \<Rightarrow>
            ebind (sample_loop O' m cdf n_min n_max n_seq gs3) (\<lambda>(components, obs, states).
              Inr (currcomponent # components, obs_seq # obs, state_seq # states)))))))"

text \<open>
  \<^verbatim>\<open>_BaseMixHMM.sample\<close>. \<open>g\<close> is the state of numpy's process-wide generator when
  the call starts. The result is the triple the method returns.
\<close>

definition sample ::
  "('h, 'r) hmm_ops \<Rightarrow> ('h, 'r) mixhmm \<Rightarrow> nat \<Rightarrow> int \<Rightarrow> int \<Rightarrow> 'r rstate \<Rightarrow> 'r \<Rightarrow>
   exn + nat list \<times> seq list \<times> nat list list" where
  "sample O' m n_seq n_min n_max rs g =
     (let rs1 = (if rs = RSNone then random_state m else rs);
          loc = (case check_random_state O' rs1 of RSGen r \<Rightarrow> Some r | _ \<Rightarrow> None);
          component_weights_cdf = cumsum (get_component_weights m)
      in sample_loop O' m component_weights_cdf n_min n_max n_seq (loc, g))"

section \<open>MultinomialMixHMM.fit\<close>





















section \<open>Concrete helpers, components and models\<close>

text \<open>Division of floats, through the inverse: \<^verbatim>\<open>1 / 0 = inf\<close>, \<^verbatim>\<open>0 / 0 = nan\<close>.\<close>

fun fl_inverse :: "fl \<Rightarrow> fl" where
  "fl_inverse (Fin a) = (if a = 0 then PInf else Fin (1 / a))"
| "fl_inverse PInf = Fin 0"
| "fl_inverse NInf = Fin 0"
| "fl_inverse NaN = NaN"

definition fl_div :: "fl \<Rightarrow> fl \<Rightarrow> fl" where
  "fl_div a b = fl_mul a (fl_inverse b)"

text \<open>
  Modelled from the spec: the helper \<^verbatim>\<open>normalize\<close> of \<^verbatim>\<open>hmm.py\<close>, which is not in
  the sources at hand. The spec has \<^verbatim>\<open>normalize(vector, axis) -> probabilities summing
  to 1\<close>: every entry divided by the sum.
\<close>

definition spec_normalize :: "fl list \<Rightarrow> fl list" where
  "spec_normalize v = map (\<lambda>a. fl_div a (np_sum v)) v"

text \<open>
  Modelled from the spec: the helper \<^verbatim>\<open>log_normalize\<close> of \<^verbatim>\<open>hmm.py\<close>, which is not
  in the sources at hand. The spec has \<^verbatim>\<open>log_normalize(log_values, axis) ->
  log-probabilities whose exponentials sum to 1\<close> and, for the responsibilities,
  \<^verbatim>\<open>log_responsibilities = joint - log_likelihood\<close> with
  \<^verbatim>\<open>log_likelihood = logsumexp(joint)\<close>.
\<close>

definition spec_log_normalize :: "fl list \<Rightarrow> fl list" where
  "spec_log_normalize v = (case v of [] \<Rightarrow> [] | x # xs \<Rightarrow> map (\<lambda>a. fl_sub a (lse x xs)) v)"

text \<open>
  A set of helpers to run the model on: the two above, a \<^verbatim>\<open>normalize\<close> that leaves
  the normalised values in its argument, and for the two random draws one possible
  outcome each (the argument, normalised).
\<close>

definition helpers0 :: helpers where
  "helpers0 =
     \<lparr>hmm_normalize = spec_normalize,
      hmm_normalize_inplace = spec_normalize,
      hmm_log_normalize = spec_log_normalize,
      hmm_randomize = spec_normalize,
      np_random_dirichlet = spec_normalize\<rparr>"

text \<open>
  A component HMM to run the model on: one state, two symbols; the HMM is the pair
  of its emission log-probabilities. A generator is the number of draws made; every
  draw of \<^verbatim>\<open>rand\<close> is 1/4, \<^verbatim>\<open>randint\<close> walks through the range, and a sampled
  sequence repeats symbol 0.
\<close>

definition ops0 :: "(fl \<times> fl, nat) hmm_ops" where
  "ops0 =
     \<lparr>compute_log_likelihood =
        (\<lambda>h sq. case sq of
                  IntSeq xs \<Rightarrow> map (\<lambda>x. [if x = 0 then fst h else snd h]) xs
                | FloatSeq xs \<Rightarrow> map (\<lambda>x. [NInf]) xs),
      do_forward_pass = (\<lambda>h frame. (foldl fl_add (Fin 0) (map (\<lambda>r. r ! 0) frame), frame)),
      do_backward_pass = (\<lambda>h frame. map (\<lambda>r. [Fin 0]) frame),
      log_transmat = (\<lambda>h. [[Fin 0]]),
      hmm_n_states = (\<lambda>h. 1),
      hmm_n_symbols = (\<lambda>h. 2),
      hmm_params = (\<lambda>h. ''ste''),
      hmm_initialize_sufficient_statistics =
        (\<lambda>h. \<lparr>hs_start = zeros 1, hs_trans = zeros2 1 1, hs_obs = zeros2 1 2\<rparr>),
      hmm_do_mstep = (\<lambda>h st p. h),
      hmm_init = (\<lambda>h obs. h),
      new_multinomial_hmm = (\<lambda>n. (Fin (ln (1 / 2)), Fin (ln (1 / 2)))),
      compute_lneta = (\<lambda>T S fwd lt bwd frame lnP t i j. Fin 0),
      rs_rand = (\<lambda>r. (Fin (1 / 4), Suc r)),
      np_randint = (\<lambda>g lo hi. (lo + int g mod (hi - lo), Suc g)),
      rs_seed = (\<lambda>n. 0),
      hmm_sample = (\<lambda>h n r. ((IntSeq (replicate (nat n) 0), replicate (nat n) 0), Suc r))\<rparr>"

definition model0 :: "(fl \<times> fl, nat) mixhmm" where
  "model0 =
     \<lparr>n_components = 2, n_states = 1,
      hmms = Some [(Fin (ln (1 / 2)), Fin (ln (1 / 2))), (Fin (ln (1 / 2)), Fin (ln (1 / 2)))],
      n_iter = 10, thresh = Fin (1 / 100), params = ''ph'', init_params = [],
      log_component_weights = [Fin (ln (1 / 2)), Fin (ln (1 / 2))],
      component_weights_prior = PriorVec [Fin 1, Fin 1],
      random_state = RSNone, verbose = 0\<rparr>"






section \<open>Properties of the arrays\<close>

lemma np_sum_Fin_aux: "foldl fl_add (Fin a) (map Fin xs) = Fin (a + sum_list xs)"
  by (induction xs arbitrary: a) (simp_all add: add.assoc)

lemma np_sum_Fin: "np_sum (map Fin xs) = Fin (sum_list xs)"
  by (simp add: np_sum_def np_sum_Fin_aux)

lemma alltrue_Fin: "alltrue (map Fin xs) = list_all (\<lambda>x. x \<noteq> 0) xs"
  by (simp add: alltrue_def list_all_iff)

section \<open>The setter of component_weights_\<close>

lemma set_component_weights_Fin:
  assumes "list_all (\<lambda>x. x \<noteq> 0) xs"
  shows "set_component_weights H m (Some (map Fin xs)) =
     (if length xs \<noteq> n_components m then Inl (ValueError msg_length)
      else if \<not> allclose (Fin (sum_list xs)) (Fin 1) then Inl (ValueError msg_sum)
      else Inr (m\<lparr>log_component_weights := map (fl_log \<circ> Fin) xs\<rparr>))"
  using assms
  by (simp add: set_component_weights_def ebind_def alltrue_Fin np_sum_Fin Let_def)

text \<open>
  C5, as amended. Setting \<^verbatim>\<open>component_weights_\<close> to an explicit vector of finite,
  non-zero entries raises a \<^verbatim>\<open>ValueError\<close> when the length of the vector differs from
  \<^verbatim>\<open>n_components\<close>, raises a \<^verbatim>\<open>ValueError\<close> when the sum of the entries is farther
  from 1.0 than the tolerance of \<^verbatim>\<open>np.allclose\<close>, which is \<open>atol + rtol * |1.0|\<close> with
  \<open>atol = 1e-8\<close> and \<open>rtol = 1e-5\<close>, and stores the logarithms of the entries otherwise.
\<close>

theorem set_component_weights_checks:
  assumes "list_all (\<lambda>x. x \<noteq> 0) xs"
  shows "set_component_weights H m (Some (map Fin xs)) =
     (if length xs \<noteq> n_components m then Inl (ValueError msg_length)
      else if atol + rtol * \<bar>1\<bar> < \<bar>sum_list xs - 1\<bar> then Inl (ValueError msg_sum)
      else Inr (m\<lparr>log_component_weights := map (\<lambda>x. fl_log (Fin x)) xs\<rparr>))"
  using set_component_weights_Fin [OF assms, of H m]
  by (auto simp add: comp_def)

theorem set_component_weights_checks_witness:
  "list_all (\<lambda>x. x \<noteq> 0) [1 / 2, 1 / 2 :: real] \<and>
   set_component_weights helpers0 model0 (Some (map Fin [1 / 2, 1 / 2])) =
     Inr (model0\<lparr>log_component_weights := [Fin (ln (1 / 2)), Fin (ln (1 / 2))]\<rparr>)"
proof -
  have nz: "list_all (\<lambda>x. x \<noteq> 0) [1 / 2, 1 / 2 :: real]"
    by simp
  have K: "n_components model0 = 2"
    by (simp add: model0_def)
  show ?thesis
    using nz set_component_weights_checks [OF nz, of helpers0 model0]
    by (simp add: K atol_def rtol_def)
qed

text \<open>
  The claim as stated fails: a vector of the wrong length raises a \<^verbatim>\<open>ValueError\<close>,
  not a \<^verbatim>\<open>ShapeError\<close>, and a vector whose sum is off by 1e-6, more than 1e-8, is
  accepted.
\<close>

theorem set_component_weights_counterexample:
  "map_sum exn_class log_component_weights
     (set_component_weights helpers0 model0 (Some [Fin 1])) = Inl ''ValueError'' \<and>
   ''ValueError'' \<noteq> ''ShapeError'' \<and>
   1 / 10 ^ 8 < \<bar>(1 / 2 + 500001 / 1000000 :: real) - 1\<bar> \<and>
   map_sum exn_class log_component_weights
     (set_component_weights helpers0 model0 (Some [Fin (1 / 2), Fin (500001 / 1000000)])) =
     Inr [Fin (ln (1 / 2)), Fin (ln (500001 / 1000000))]"
  by (simp add: set_component_weights_def ebind_def alltrue_def np_sum_def model0_def
      atol_def rtol_def)




section \<open>The validation of MultinomialMixHMM.fit\<close>













section \<open>Sums in log space\<close>










section \<open>Sampling and the process-wide generator\<close>

text \<open>
  C6. Two calls of \<^verbatim>\<open>sample\<close> on the same model with the same arguments and the
  same seed return sequences of different lengths when numpy's process-wide generator
  is in two different states: the length of a sequence is drawn with
  \<^verbatim>\<open>np.random.randint\<close>, not from \<^verbatim>\<open>random_state\<close>.
\<close>

theorem sample_depends_on_global_state:
  "sample ops0 model0 1 1 3 (RSSeed 0) 0 = Inr ([0], [IntSeq [0]], [[0]]) \<and>
   sample ops0 model0 1 1 3 (RSSeed 0) 1 = Inr ([0], [IntSeq [0, 0]], [[0, 0]])"
  by (simp add: sample_def check_random_state_def ops0_def model0_def cumsum_def
      get_component_weights_def draw_rand_def argmax_bool_def draw_length_def the_hmms_def
      nth_e_def draw_sample_def ebind_def numeral_2_eq_2)

section \<open>Sequences of length one\<close>

lemma ebind_Inr:
  "ebind r f = Inr y \<Longrightarrow> \<exists>x. r = Inr x \<and> f x = Inr y"
  by (cases r) (simp_all add: ebind_def)








section \<open>Scoring\<close>














section \<open>Prediction\<close>






lemma np_max_single: "np_max x [] = x"
  by (simp add: np_max_def)






section \<open>The maximization of the component weights\<close>







section \<open>The loop of fit\<close>









section \<open>Folding the inner statistics into the outer ones\<close>















end
